theory Spec2Isabelle
  imports Main
begin

section \<open>The photo upload server (server.js)\<close>

text \<open>
  A shallow embedding of \<^verbatim>\<open>server.js\<close>: the progress map, the two Drive helpers
  \<^verbatim>\<open>createCustomerFolder\<close> and \<^verbatim>\<open>uploadToDrive\<close>, the multer configuration, and the
  two route handlers. One request is followed from arrival to response; the awaits of the
  handler are taken in program order, without another request's writes in between.
\<close>

subsection \<open>JavaScript values\<close>

text \<open>
  Object literals of the source are finite maps from field names to values. Numbers in
  this program are array lengths, loop indices and millisecond timestamps, hence \<open>nat\<close>.
\<close>

datatype js_value = JNull | JBool bool | JNum nat | JStr string

type_synonym js_object = "string \<rightharpoonup> js_value"

text \<open>
  Every error of the program is a JavaScript \<^verbatim>\<open>Error\<close>; the constructor says who throws it.
  The first three carry their message, a \<^verbatim>\<open>MulterError\<close> its code.
\<close>

datatype error =
    DriveError string
  | FsError string
  | TypeError string
  | MulterError string

fun message :: "error \<Rightarrow> string" where
  "message (DriveError m) = m"
| "message (FsError m) = m"
| "message (TypeError m) = m"
| "message (MulterError code) =
     (if code = ''LIMIT_FILE_SIZE'' then ''File too large''
      else if code = ''LIMIT_UNEXPECTED_FILE'' then ''Unexpected field''
      else code)"

text \<open>A template literal prints a missing form field as the word undefined.\<close>

fun js_str :: "string option \<Rightarrow> string" where
  "js_str None = ''undefined''"
| "js_str (Some v) = v"

text \<open>\<^verbatim>\<open>Date.now().toString()\<close> and the numbers inside template literals: decimal digits.\<close>

definition digit :: "nat \<Rightarrow> char" where
  "digit d = ''0123456789'' ! d"

function show_nat :: "nat \<Rightarrow> string" where
  "show_nat n = (if n < 10 then [digit n] else show_nat (n div 10) @ [digit (n mod 10)])"
  by pat_completeness auto
termination
  by (relation "measure (\<lambda>n. n)") auto

declare show_nat.simps [simp del]

subsection \<open>Files, Drive replies, responses\<close>

text \<open>An entry of \<^verbatim>\<open>req.files\<close> as multer leaves it (the fields the program reads).\<close>

record multer_file =
  originalname :: string
  mimetype :: string
  path :: string
  fsize :: nat

text \<open>\<^verbatim>\<open>folder.data\<close> and \<^verbatim>\<open>response.data\<close> of the two kinds of \<^verbatim>\<open>drive.files.create\<close>.\<close>

record drive_folder =
  data_id :: string
  data_name :: string
  data_webViewLink :: string

record drive_file =
  file_id :: string
  file_name :: string

text \<open>What \<^verbatim>\<open>createCustomerFolder\<close> returns: \<^verbatim>\<open>{ id, name, link }\<close>.\<close>

record folder =
  fid :: string
  fname :: string
  link :: string

text \<open>
  The remote calls the program issues, with the arguments it passes:
  \<^verbatim>\<open>drive.files.create\<close> for a folder (name, mimeType), \<^verbatim>\<open>drive.permissions.create\<close>
  (fileId, role, type), and \<^verbatim>\<open>drive.files.create\<close> for a file (name, parents, media
  mimeType, the local path streamed as body).
\<close>

datatype drive_call =
    FilesCreateFolder string string
  | PermissionsCreate string string string
  | FilesCreateMedia string "string list" string string

datatype body = Json js_object | Html string

record response =
  status_code :: nat
  body :: body

subsection \<open>Program state\<close>

text \<open>
  \<open>uploadProgress\<close> is the process-wide \<^verbatim>\<open>Map\<close>; \<open>disk\<close> the paths present in the
  upload directory; \<open>calls\<close> the remote calls issued so far, oldest first; \<open>console\<close>
  the \<^verbatim>\<open>console.error\<close> lines. \<open>trail\<close> records the content of \<open>uploadProgress\<close>
  after each write to it, oldest first, so that every intermediate content of the map can
  be spoken about.
\<close>

record state =
  uploadProgress :: "string \<rightharpoonup> js_object"
  disk :: "string set"
  calls :: "drive_call list"
  console :: "(string \<times> error) list"
  trail :: "(string \<rightharpoonup> js_object) list"

definition progress_set :: "string \<Rightarrow> js_object \<Rightarrow> state \<Rightarrow> state" where
  "progress_set k v s =
     s\<lparr>uploadProgress := (uploadProgress s)(k \<mapsto> v),
       trail := trail s @ [(uploadProgress s)(k \<mapsto> v)]\<rparr>"

definition console_error :: "string \<Rightarrow> error \<Rightarrow> state \<Rightarrow> state" where
  "console_error label e s = s\<lparr>console := console s @ [(label, e)]\<rparr>"

definition remote_call :: "drive_call \<Rightarrow> state \<Rightarrow> state" where
  "remote_call c s = s\<lparr>calls := calls s @ [c]\<rparr>"

text \<open>\<^verbatim>\<open>{...uploadProgress.get(id), ...}\<close>: spreading \<^verbatim>\<open>undefined\<close> contributes no field.\<close>

fun spread :: "js_object option \<Rightarrow> js_object" where
  "spread None = Map.empty"
| "spread (Some obj) = obj"

text \<open>
  What the outside world answers to one request: the two clock readings the handler
  takes (line 116 and line 40), the reply of the folder creation, of the permission
  grant, and of the upload of \<^verbatim>\<open>files[i]\<close> for each index. A rejected promise is \<open>Inl\<close>.
\<close>

record env =
  now_upload :: nat
  now_folder :: nat
  folder_reply :: "error + drive_folder"
  permission_reply :: "error + unit"
  file_reply :: "nat \<Rightarrow> error + drive_file"

subsection \<open>createCustomerFolder (lines 39-66)\<close>

text \<open>Line 40: the folder name is built from the two form fields and the clock.\<close>

definition folderName :: "nat \<Rightarrow> string option \<Rightarrow> string option \<Rightarrow> string" where
  "folderName now customerName orderNumber =
     js_str customerName @ ''-ORDER-'' @ js_str orderNumber @ ''-'' @ show_nat now"

definition createCustomerFolder ::
  "nat \<Rightarrow> error + drive_folder \<Rightarrow> error + unit \<Rightarrow> string option \<Rightarrow> string option \<Rightarrow> state
   \<Rightarrow> (error + folder) \<times> state" where
  "createCustomerFolder now freply preply customerName orderNumber s =
     (let s1 = remote_call (FilesCreateFolder (folderName now customerName orderNumber)
                              ''application/vnd.google-apps.folder'') s
      in case freply of
           Inl e \<Rightarrow> (Inl e, s1)
         | Inr fdata \<Rightarrow>
             (let s2 = remote_call (PermissionsCreate (data_id fdata) ''reader'' ''anyone'') s1
              in case preply of
                   Inl e \<Rightarrow> (Inl e, s2)
                 | Inr _ \<Rightarrow>
                     (Inr \<lparr>fid = data_id fdata, fname = data_name fdata,
                           link = data_webViewLink fdata\<rparr>, s2)))"

subsection \<open>uploadToDrive (lines 69-90)\<close>

text \<open>
  The remote call is issued with the file's name, parent folder, MIME type and path. When
  it is rejected the function throws at the await and line 87 is not reached. Otherwise
  \<^verbatim>\<open>fs.unlinkSync\<close> removes the path, and throws when the path does not exist.
\<close>

definition uploadToDrive ::
  "error + drive_file \<Rightarrow> multer_file \<Rightarrow> string \<Rightarrow> state \<Rightarrow> (error + drive_file) \<times> state" where
  "uploadToDrive reply f folderId s =
     (let s1 = remote_call (FilesCreateMedia (originalname f) [folderId] (mimetype f) (path f)) s
      in case reply of
           Inl e \<Rightarrow> (Inl e, s1)
         | Inr rdata \<Rightarrow>
             if path f \<in> disk s1
             then (Inr rdata, s1\<lparr>disk := disk s1 - {path f}\<rparr>)
             else (Inl (FsError ''ENOENT: no such file or directory, unlink''), s1))"

subsection \<open>POST /api/upload-photos (lines 112-171)\<close>

text \<open>
  One pass through the body of the loop (lines 141-151) at index \<open>i\<close>. A throw of
  \<^verbatim>\<open>uploadToDrive\<close>, or of line 146 when the map has no record under the identifier, is
  caught at line 149 and logged; nothing else happens on that path.
\<close>

definition upload_iteration ::
  "(nat \<Rightarrow> error + drive_file) \<Rightarrow> string \<Rightarrow> multer_file list \<Rightarrow> string \<Rightarrow> nat \<Rightarrow> state \<Rightarrow> state" where
  "upload_iteration reply uploadId fs folderId i s =
     (case uploadToDrive (reply i) (fs ! i) folderId s of
        (Inr _, s1) \<Rightarrow>
          (case uploadProgress s1 uploadId of
             Some progress \<Rightarrow> progress_set uploadId (progress(''completed'' \<mapsto> JNum (i + 1))) s1
           | None \<Rightarrow>
               console_error ''Error uploading file:''
                 (TypeError ''Cannot set properties of undefined'') s1)
      | (Inl e, s1) \<Rightarrow> console_error ''Error uploading file:'' e s1)"

text \<open>The loop of lines 140-152, from index \<open>i\<close> on.\<close>

function upload_loop ::
  "(nat \<Rightarrow> error + drive_file) \<Rightarrow> string \<Rightarrow> multer_file list \<Rightarrow> string \<Rightarrow> nat \<Rightarrow> state \<Rightarrow> state" where
  "upload_loop reply uploadId fs folderId i s =
     (if i < length fs
      then upload_loop reply uploadId fs folderId (Suc i) (upload_iteration reply uploadId fs folderId i s)
      else s)"
  by pat_completeness auto
termination
  by (relation "measure (\<lambda>(reply, uploadId, fs, folderId, i, s). length fs - i)") auto

declare upload_loop.simps [simp del]

text \<open>The request as the handler sees it: \<^verbatim>\<open>req.body\<close> fields and \<^verbatim>\<open>req.files\<close>.\<close>

record request =
  customerName :: "string option"
  orderNumber :: "string option"
  files :: "multer_file list option"

definition no_files_response :: response where
  "no_files_response = \<lparr>status_code = 400, body = Json [''error'' \<mapsto> JStr ''No files uploaded'']\<rparr>"

definition failure_response :: "error \<Rightarrow> response" where
  "failure_response e =
     \<lparr>status_code = 500,
      body = Json [''error'' \<mapsto> JStr ''Upload failed'', ''details'' \<mapsto> JStr (message e)]\<rparr>"

definition success_response :: "string \<Rightarrow> folder \<Rightarrow> nat \<Rightarrow> response" where
  "success_response uploadId fo n =
     \<lparr>status_code = 200,
      body = Json [''success'' \<mapsto> JBool True,
                   ''uploadId'' \<mapsto> JStr uploadId,
                   ''folderLink'' \<mapsto> JStr (link fo),
                   ''message'' \<mapsto> JStr (''Successfully uploaded '' @ show_nat n @ '' photos'')]\<rparr>"

definition initial_progress :: "nat \<Rightarrow> js_object" where
  "initial_progress n =
     [''total'' \<mapsto> JNum n, ''completed'' \<mapsto> JNum 0, ''folderLink'' \<mapsto> JNull,
      ''status'' \<mapsto> JStr ''uploading'']"

definition upload_photos_handler :: "env \<Rightarrow> request \<Rightarrow> state \<Rightarrow> response \<times> state" where
  "upload_photos_handler ev req s =
     (let uploadId = show_nat (now_upload ev)
      in case files req of
           None \<Rightarrow> (no_files_response, s)
         | Some fs \<Rightarrow>
             if length fs = 0 then (no_files_response, s)
             else
               (let s1 = progress_set uploadId (initial_progress (length fs)) s
                in case createCustomerFolder (now_folder ev) (folder_reply ev) (permission_reply ev)
                          (customerName req) (orderNumber req) s1 of
                     (Inl e, s2) \<Rightarrow> (failure_response e, console_error ''Upload error:'' e s2)
                   | (Inr fo, s2) \<Rightarrow>
                       (let s3 = progress_set uploadId
                                   ((spread (uploadProgress s2 uploadId))(''folderLink'' \<mapsto> JStr (link fo))) s2;
                            s4 = upload_loop (file_reply ev) uploadId fs (fid fo) 0 s3;
                            s5 = progress_set uploadId
                                   ((spread (uploadProgress s4 uploadId))(''status'' \<mapsto> JStr ''completed'')) s4
                        in (success_response uploadId fo (length fs), s5))))"

subsection \<open>GET /api/upload-progress/:uploadId (lines 174-180)\<close>

definition upload_progress_handler :: "string \<Rightarrow> state \<Rightarrow> response \<times> state" where
  "upload_progress_handler uploadId s =
     (case uploadProgress s uploadId of
        None \<Rightarrow> (\<lparr>status_code = 404, body = Json [''error'' \<mapsto> JStr ''Upload not found'']\<rparr>, s)
      | Some progress \<Rightarrow> (\<lparr>status_code = 200, body = Json progress\<rparr>, s))"

subsection \<open>The multer stage (lines 93-109 and the middleware of line 112)\<close>

text \<open>
  A file part of the multipart body as it arrives: its name, MIME type, length in bytes,
  and the clock reading taken when the \<^verbatim>\<open>filename\<close> callback of line 101 runs for it.
\<close>

record part =
  part_originalname :: string
  part_mimetype :: string
  part_size :: nat
  part_now :: nat

definition fileSize :: nat where
  "fileSize = 10 * 1024 * 1024"

definition maxCount :: nat where
  "maxCount = 10"

text \<open>
  Lines 94-103: the file is written under the upload directory as the clock reading, a
  dash, and the original name.
\<close>

definition storage_filename :: "part \<Rightarrow> string" where
  "storage_filename p = show_nat (part_now p) @ ''-'' @ part_originalname p"

definition stored :: "part \<Rightarrow> multer_file" where
  "stored p =
     \<lparr>originalname = part_originalname p, mimetype = part_mimetype p,
      path = ''uploads/'' @ storage_filename p, fsize = part_size p\<rparr>"

text \<open>
  \<^verbatim>\<open>upload.array('photos', 10)\<close> with \<^verbatim>\<open>limits.fileSize\<close>: multer itself is a library outside
  \<^verbatim>\<open>server.js\<close>; the two limits are the ones the source configures. Parts are taken in
  order, \<open>n\<close> counting those already accepted. A part beyond the tenth, or one longer than
  \<open>fileSize\<close> bytes, makes multer pass a \<^verbatim>\<open>MulterError\<close> to \<^verbatim>\<open>next\<close>, and the route handler
  is not called.
\<close>

fun multer_array :: "nat \<Rightarrow> part list \<Rightarrow> error + multer_file list" where
  "multer_array n [] = Inr []"
| "multer_array n (p # ps) =
     (if maxCount \<le> n then Inl (MulterError ''LIMIT_UNEXPECTED_FILE'')
      else if fileSize < part_size p then Inl (MulterError ''LIMIT_FILE_SIZE'')
      else (case multer_array (Suc n) ps of
              Inl e \<Rightarrow> Inl e
            | Inr fs \<Rightarrow> Inr (stored p # fs)))"

record raw_request =
  form_customerName :: "string option"
  form_orderNumber :: "string option"
  photos :: "part list"

text \<open>
  The route of line 112. \<open>on_error\<close> is what Express answers when a middleware passes an
  error to \<^verbatim>\<open>next\<close>: \<^verbatim>\<open>server.js\<close> registers no error-handling middleware of its own, and
  the \<^verbatim>\<open>try\<close> of line 113 does not enclose the multer stage. On acceptance the stored
  files are on disk when the handler starts.
\<close>

definition post_upload_photos ::
  "(error \<Rightarrow> response) \<Rightarrow> env \<Rightarrow> raw_request \<Rightarrow> state \<Rightarrow> response \<times> state" where
  "post_upload_photos on_error ev rq s =
     (case multer_array 0 (photos rq) of
        Inl e \<Rightarrow> (on_error e, s)
      | Inr fs \<Rightarrow>
          upload_photos_handler ev
            \<lparr>customerName = form_customerName rq, orderNumber = form_orderNumber rq, files = Some fs\<rparr>
            (s\<lparr>disk := disk s \<union> set (map path fs)\<rparr>))"

text \<open>
  Express's default error handler, which is what \<open>on_error\<close> is for this program. It is
  part of the framework, not of \<^verbatim>\<open>server.js\<close>: the status is the error's own \<^verbatim>\<open>status\<close> when
  it carries one between 400 and 599, and 500 otherwise; none of the errors above carries
  one. The body is an HTML page showing the error; the message stands for its text here.
\<close>

definition express_default_error :: "error \<Rightarrow> response" where
  "express_default_error e = \<lparr>status_code = 500, body = Html (message e)\<rparr>"

subsection \<open>Notions used to state the properties\<close>

text \<open>The state on entry to iteration \<open>i\<close> of the loop started in \<open>s\<close>.\<close>

fun loop_state ::
  "(nat \<Rightarrow> error + drive_file) \<Rightarrow> string \<Rightarrow> multer_file list \<Rightarrow> string \<Rightarrow> state \<Rightarrow> nat \<Rightarrow> state" where
  "loop_state reply uploadId fs folderId s 0 = s"
| "loop_state reply uploadId fs folderId s (Suc i) =
     upload_iteration reply uploadId fs folderId i (loop_state reply uploadId fs folderId s i)"

text \<open>
  A call of \<^verbatim>\<open>uploadToDrive\<close> returns normally exactly when the remote call is accepted and
  the temporary file is there to be unlinked (lemma \<open>uploadToDrive_returns\<close> below).
\<close>

definition upload_succeeds :: "error + drive_file \<Rightarrow> multer_file \<Rightarrow> string set \<Rightarrow> bool" where
  "upload_succeeds reply f dsk = (case reply of Inl _ \<Rightarrow> False | Inr _ \<Rightarrow> path f \<in> dsk)"

text \<open>The disk on entry to iteration \<open>i\<close>, and whether the upload of that iteration succeeds.\<close>

fun disk_at :: "(nat \<Rightarrow> error + drive_file) \<Rightarrow> multer_file list \<Rightarrow> string set \<Rightarrow> nat \<Rightarrow> string set" where
  "disk_at reply fs dsk 0 = dsk"
| "disk_at reply fs dsk (Suc i) =
     (if upload_succeeds (reply i) (fs ! i) (disk_at reply fs dsk i)
      then disk_at reply fs dsk i - {path (fs ! i)}
      else disk_at reply fs dsk i)"

definition upload_ok :: "(nat \<Rightarrow> error + drive_file) \<Rightarrow> multer_file list \<Rightarrow> string set \<Rightarrow> nat \<Rightarrow> bool" where
  "upload_ok reply fs dsk i = upload_succeeds (reply i) (fs ! i) (disk_at reply fs dsk i)"

text \<open>The largest index below \<open>n\<close> at which \<open>ok\<close> holds, if there is one.\<close>

fun last_success :: "(nat \<Rightarrow> bool) \<Rightarrow> nat \<Rightarrow> nat option" where
  "last_success ok 0 = None"
| "last_success ok (Suc n) = (if ok n then Some n else last_success ok n)"





text \<open>
  The folder step fails with \<open>e\<close>: the folder creation is rejected with it, or the
  creation is accepted and the permission grant is rejected with it.
\<close>

definition provisioning_fails :: "env \<Rightarrow> error \<Rightarrow> bool" where
  "provisioning_fails ev e =
     (case folder_reply ev of
        Inl e' \<Rightarrow> e' = e
      | Inr _ \<Rightarrow> (case permission_reply ev of Inl e' \<Rightarrow> e' = e | Inr _ \<Rightarrow> False))"

text \<open>The remote calls \<^verbatim>\<open>createCustomerFolder\<close> issues for a request.\<close>

definition provisioning_calls :: "env \<Rightarrow> request \<Rightarrow> drive_call list" where
  "provisioning_calls ev req =
     FilesCreateFolder (folderName (now_folder ev) (customerName req) (orderNumber req))
        ''application/vnd.google-apps.folder'' #
     (case folder_reply ev of
        Inl _ \<Rightarrow> []
      | Inr d \<Rightarrow> [PermissionsCreate (data_id d) ''reader'' ''anyone''])"

text \<open>The state in which the loop starts when the folder step has succeeded with \<open>d\<close>.\<close>

definition loop_entry :: "env \<Rightarrow> request \<Rightarrow> nat \<Rightarrow> drive_folder \<Rightarrow> state \<Rightarrow> state" where
  "loop_entry ev req n d s =
     progress_set (show_nat (now_upload ev))
       ((initial_progress n)(''folderLink'' \<mapsto> JStr (data_webViewLink d)))
       (remote_call (PermissionsCreate (data_id d) ''reader'' ''anyone'')
         (remote_call (FilesCreateFolder (folderName (now_folder ev) (customerName req) (orderNumber req))
            ''application/vnd.google-apps.folder'')
           (progress_set (show_nat (now_upload ev)) (initial_progress n) s)))"





text \<open>Whether a remote call is the upload of a file.\<close>

definition is_file_upload :: "drive_call \<Rightarrow> bool" where
  "is_file_upload c = (case c of FilesCreateMedia _ _ _ _ \<Rightarrow> True | _ \<Rightarrow> False)"

subsection \<open>Sample inputs\<close>

definition photo_a :: multer_file where
  "photo_a = \<lparr>originalname = ''a.jpg'', mimetype = ''image/jpeg'', path = ''uploads/1-a.jpg'', fsize = 100\<rparr>"

definition photo_b :: multer_file where
  "photo_b = \<lparr>originalname = ''b.jpg'', mimetype = ''image/jpeg'', path = ''uploads/2-b.jpg'', fsize = 200\<rparr>"

definition drive_ok :: drive_folder where
  "drive_ok = \<lparr>data_id = ''F1'', data_name = ''Ann-ORDER-7-6'', data_webViewLink = ''https://drive/F1''\<rparr>"

definition two_photos :: request where
  "two_photos = \<lparr>customerName = Some ''Ann'', orderNumber = Some ''7'', files = Some [photo_a, photo_b]\<rparr>"

definition first_upload_fails :: env where
  "first_upload_fails =
     \<lparr>now_upload = 5, now_folder = 6, folder_reply = Inr drive_ok, permission_reply = Inr (),
      file_reply = (\<lambda>i. if i = 0 then Inl (DriveError ''socket hang up'')
                         else Inr \<lparr>file_id = ''x'', file_name = ''b.jpg''\<rparr>)\<rparr>"

definition idle :: state where
  "idle = \<lparr>uploadProgress = Map.empty, disk = {''uploads/1-a.jpg'', ''uploads/2-b.jpg''},
           calls = [], console = [], trail = []\<rparr>"

definition folder_step_fails :: env where
  "folder_step_fails =
     \<lparr>now_upload = 5, now_folder = 6, folder_reply = Inr drive_ok,
      permission_reply = Inl (DriveError ''insufficient permissions''),
      file_reply = (\<lambda>i. Inr \<lparr>file_id = ''x'', file_name = ''y''\<rparr>)\<rparr>"

definition no_parts :: raw_request where
  "no_parts = \<lparr>form_customerName = Some ''Ann'', form_orderNumber = Some ''7'', photos = []\<rparr>"


text \<open>Multipart bodies: two small photos, and one with a photo of 10 MiB and one byte.\<close>

definition part_a :: part where
  "part_a = \<lparr>part_originalname = ''a.jpg'', part_mimetype = ''image/jpeg'', part_size = 100, part_now = 1\<rparr>"

definition part_b :: part where
  "part_b = \<lparr>part_originalname = ''b.jpg'', part_mimetype = ''image/jpeg'', part_size = 200, part_now = 2\<rparr>"

definition two_parts :: raw_request where
  "two_parts = \<lparr>form_customerName = Some ''Ann'', form_orderNumber = Some ''7'', photos = [part_a, part_b]\<rparr>"

definition all_uploads_succeed :: env where
  "all_uploads_succeed =
     \<lparr>now_upload = 5, now_folder = 6, folder_reply = Inr drive_ok, permission_reply = Inr (),
      file_reply = (\<lambda>i. Inr \<lparr>file_id = ''x'', file_name = ''y''\<rparr>)\<rparr>"

definition big_part :: part where
  "big_part = \<lparr>part_originalname = ''big.jpg'', part_mimetype = ''image/jpeg'',
                part_size = 10 * 1024 * 1024 + 1, part_now = 3\<rparr>"

definition oversized :: raw_request where
  "oversized = \<lparr>form_customerName = Some ''Ann'', form_orderNumber = Some ''7'', photos = [part_a, big_part]\<rparr>"

section \<open>Auxiliary facts\<close>

lemma progress_set_fields [simp]:
  "uploadProgress (progress_set k v s) = (uploadProgress s)(k \<mapsto> v)"
  "trail (progress_set k v s) = trail s @ [(uploadProgress s)(k \<mapsto> v)]"
  "disk (progress_set k v s) = disk s"
  "calls (progress_set k v s) = calls s"
  "console (progress_set k v s) = console s"
  by (simp_all add: progress_set_def)

lemma console_error_fields [simp]:
  "uploadProgress (console_error l e s) = uploadProgress s"
  "trail (console_error l e s) = trail s"
  "disk (console_error l e s) = disk s"
  "calls (console_error l e s) = calls s"
  "console (console_error l e s) = console s @ [(l, e)]"
  by (simp_all add: console_error_def)

lemma remote_call_fields [simp]:
  "uploadProgress (remote_call c s) = uploadProgress s"
  "trail (remote_call c s) = trail s"
  "disk (remote_call c s) = disk s"
  "calls (remote_call c s) = calls s @ [c]"
  "console (remote_call c s) = console s"
  by (simp_all add: remote_call_def)

lemma upload_loop_eq_loop_state_aux:
  "i \<le> length fs \<Longrightarrow>
   upload_loop reply k fs folderId i (loop_state reply k fs folderId s i) = loop_state reply k fs folderId s (length fs)"
proof (induction "length fs - i" arbitrary: i)
  case 0
  then show ?case by (simp add: upload_loop.simps)
next
  case (Suc d)
  then have lt: "i < length fs" by simp
  from Suc have "d = length fs - Suc i" by simp
  from Suc.hyps(1) [OF this] lt
  have "upload_loop reply k fs folderId (Suc i) (loop_state reply k fs folderId s (Suc i)) =
        loop_state reply k fs folderId s (length fs)" by simp
  with lt show ?case by (subst upload_loop.simps) simp
qed

lemma upload_loop_eq_loop_state:
  "upload_loop reply k fs folderId 0 s = loop_state reply k fs folderId s (length fs)"
  using upload_loop_eq_loop_state_aux [of 0 fs reply k folderId s] by simp

lemma uploadToDrive_returns:
  "(\<exists>d. fst (uploadToDrive reply f folderId s) = Inr d) \<longleftrightarrow> upload_succeeds reply f (disk s)"
  by (auto simp: uploadToDrive_def upload_succeeds_def Let_def split: sum.splits)

lemma uploadToDrive_disk:
  "disk (snd (uploadToDrive reply f folderId s)) =
     (if upload_succeeds reply f (disk s) then disk s - {path f} else disk s)"
  by (auto simp: uploadToDrive_def upload_succeeds_def Let_def split: sum.splits)

lemma uploadToDrive_frame [simp]:
  "uploadProgress (snd (uploadToDrive reply f folderId s)) = uploadProgress s"
  "trail (snd (uploadToDrive reply f folderId s)) = trail s"
  "console (snd (uploadToDrive reply f folderId s)) = console s"
  "calls (snd (uploadToDrive reply f folderId s)) =
     calls s @ [FilesCreateMedia (originalname f) [folderId] (mimetype f) (path f)]"
  by (simp_all add: uploadToDrive_def Let_def split: sum.splits)


lemma upload_iteration_disk:
  "disk (upload_iteration reply k fs folderId i s) =
     (if upload_succeeds (reply i) (fs ! i) (disk s) then disk s - {path (fs ! i)} else disk s)"
  by (auto simp: upload_iteration_def uploadToDrive_def upload_succeeds_def Let_def
           split: sum.splits option.splits)

lemma loop_state_disk:
  "disk (loop_state reply k fs folderId s i) = disk_at reply fs (disk s) i"
  by (induction i) (simp_all add: upload_iteration_disk)

lemma upload_iteration_calls:
  "calls (upload_iteration reply k fs folderId i s) =
     calls s @ [FilesCreateMedia (originalname (fs ! i)) [folderId] (mimetype (fs ! i)) (path (fs ! i))]"
  by (auto simp: upload_iteration_def uploadToDrive_def Let_def split: sum.splits option.splits)

lemma upload_iteration_progress:
  "uploadProgress s k = Some p \<Longrightarrow>
   uploadProgress (upload_iteration reply k fs folderId i s) =
     (if upload_succeeds (reply i) (fs ! i) (disk s)
      then (uploadProgress s)(k \<mapsto> p(''completed'' \<mapsto> JNum (i + 1)))
      else uploadProgress s)"
  by (auto simp: upload_iteration_def uploadToDrive_def upload_succeeds_def Let_def
           split: sum.splits option.splits)


lemma loop_state_progress:
  "uploadProgress s k = Some p \<Longrightarrow>
   uploadProgress (loop_state reply k fs folderId s n) =
     (case last_success (upload_ok reply fs (disk s)) n of
        None \<Rightarrow> uploadProgress s
      | Some j \<Rightarrow> (uploadProgress s)(k \<mapsto> p(''completed'' \<mapsto> JNum (j + 1))))"
proof (induction n)
  case 0
  then show ?case by simp
next
  case (Suc n)
  let ?t = "loop_state reply k fs folderId s n"
  from Suc have st: "uploadProgress ?t =
     (case last_success (upload_ok reply fs (disk s)) n of
        None \<Rightarrow> uploadProgress s
      | Some j \<Rightarrow> (uploadProgress s)(k \<mapsto> p(''completed'' \<mapsto> JNum (j + 1))))" by simp
  obtain q where q: "uploadProgress ?t k = Some q"
    and qq: "q(''completed'' \<mapsto> JNum (n + 1)) = p(''completed'' \<mapsto> JNum (n + 1))"
    using st Suc.prems by (cases "last_success (upload_ok reply fs (disk s)) n") auto
  show ?case
  proof (cases "upload_ok reply fs (disk s) n")
    case True
    then have "upload_succeeds (reply n) (fs ! n) (disk ?t)"
      by (simp add: upload_ok_def loop_state_disk)
    with q qq have "uploadProgress (loop_state reply k fs folderId s (Suc n)) =
        (uploadProgress ?t)(k \<mapsto> p(''completed'' \<mapsto> JNum (n + 1)))"
      by (simp add: upload_iteration_progress)
    also have "\<dots> = (uploadProgress s)(k \<mapsto> p(''completed'' \<mapsto> JNum (n + 1)))"
      unfolding st by (cases "last_success (upload_ok reply fs (disk s)) n") simp_all
    finally show ?thesis using True by simp
  next
    case False
    then have "\<not> upload_succeeds (reply n) (fs ! n) (disk ?t)"
      by (simp add: upload_ok_def loop_state_disk)
    with q st False show ?thesis
      by (simp add: upload_iteration_progress)
  qed
qed

lemma createCustomerFolder_frame [simp]:
  "uploadProgress (snd (createCustomerFolder now fr pr cn ordn s)) = uploadProgress s"
  "trail (snd (createCustomerFolder now fr pr cn ordn s)) = trail s"
  "console (snd (createCustomerFolder now fr pr cn ordn s)) = console s"
  "disk (snd (createCustomerFolder now fr pr cn ordn s)) = disk s"
  by (simp_all add: createCustomerFolder_def Let_def split: sum.splits)

lemma createCustomerFolder_ok:
  "createCustomerFolder now (Inr d) (Inr u) cn ordn s =
     (Inr \<lparr>fid = data_id d, fname = data_name d, link = data_webViewLink d\<rparr>,
      remote_call (PermissionsCreate (data_id d) ''reader'' ''anyone'')
        (remote_call (FilesCreateFolder (folderName now cn ordn) ''application/vnd.google-apps.folder'') s))"
  by (simp add: createCustomerFolder_def Let_def)


lemma createCustomerFolder_folder_fails:
  "createCustomerFolder now (Inl e) pr cn ordn s =
     (Inl e, remote_call (FilesCreateFolder (folderName now cn ordn) ''application/vnd.google-apps.folder'') s)"
  by (simp add: createCustomerFolder_def Let_def)

lemma createCustomerFolder_permission_fails:
  "createCustomerFolder now (Inr d) (Inl e) cn ordn s =
     (Inl e,
      remote_call (PermissionsCreate (data_id d) ''reader'' ''anyone'')
        (remote_call (FilesCreateFolder (folderName now cn ordn) ''application/vnd.google-apps.folder'') s))"
  by (simp add: createCustomerFolder_def Let_def)

lemma handler_failure:
  assumes "files req = Some fs" and "fs \<noteq> []" and "provisioning_fails ev e"
  shows "upload_photos_handler ev req s =
           (failure_response e,
            console_error ''Upload error:'' e
              (progress_set (show_nat (now_upload ev)) (initial_progress (length fs)) s)
              \<lparr>calls := calls s @ provisioning_calls ev req\<rparr>)"
proof (cases "folder_reply ev")
  case (Inl e')
  with assms(3) have "e' = e" by (simp add: provisioning_fails_def)
  with Inl assms(1,2) show ?thesis
    by (simp add: upload_photos_handler_def Let_def provisioning_calls_def
          createCustomerFolder_folder_fails
          console_error_def remote_call_def progress_set_def)
next
  case (Inr d)
  with assms(3) have pr: "permission_reply ev = Inl e"
    by (simp add: provisioning_fails_def split: sum.splits)
  with Inr assms(1,2) show ?thesis
    by (simp add: upload_photos_handler_def Let_def provisioning_calls_def
          createCustomerFolder_permission_fails
          console_error_def remote_call_def progress_set_def)
qed

lemma handler_success:
  assumes "files req = Some fs" and "fs \<noteq> []"
    and "folder_reply ev = Inr d" and "permission_reply ev = Inr u"
  shows "upload_photos_handler ev req s =
           (success_response (show_nat (now_upload ev))
              \<lparr>fid = data_id d, fname = data_name d, link = data_webViewLink d\<rparr> (length fs),
            (let s4 = loop_state (file_reply ev) (show_nat (now_upload ev)) fs (data_id d)
                        (loop_entry ev req (length fs) d s) (length fs)
             in progress_set (show_nat (now_upload ev))
                  ((spread (uploadProgress s4 (show_nat (now_upload ev))))(''status'' \<mapsto> JStr ''completed''))
                  s4))"
  using assms
  by (simp add: upload_photos_handler_def Let_def upload_loop_eq_loop_state loop_entry_def
        createCustomerFolder_ok del: loop_state.simps)

lemma provisioning_cases:
  obtains (fails) e where "provisioning_fails ev e"
  | (ok) d u where "folder_reply ev = Inr d" "permission_reply ev = Inr u"
  by (cases "folder_reply ev"; cases "permission_reply ev")
     (auto simp: provisioning_fails_def)

lemma loop_entry_fields [simp]:
  "uploadProgress (loop_entry ev req n d s) =
     (uploadProgress s)(show_nat (now_upload ev) \<mapsto>
        (initial_progress n)(''folderLink'' \<mapsto> JStr (data_webViewLink d)))"
  "disk (loop_entry ev req n d s) = disk s"
  "console (loop_entry ev req n d s) = console s"
  "trail (loop_entry ev req n d s) =
     trail s @ [(uploadProgress s)(show_nat (now_upload ev) \<mapsto> initial_progress n),
                (uploadProgress s)(show_nat (now_upload ev) \<mapsto>
                   (initial_progress n)(''folderLink'' \<mapsto> JStr (data_webViewLink d)))]"
  "calls (loop_entry ev req n d s) =
     calls s @ [FilesCreateFolder (folderName (now_folder ev) (customerName req) (orderNumber req))
                  ''application/vnd.google-apps.folder'',
                PermissionsCreate (data_id d) ''reader'' ''anyone'']"
  by (simp_all add: loop_entry_def)

lemma loop_state_calls:
  "n \<le> length fs \<Longrightarrow>
   calls (loop_state reply k fs folderId s n) =
     calls s @ map (\<lambda>f. FilesCreateMedia (originalname f) [folderId] (mimetype f) (path f)) (take n fs)"
  by (induction n) (simp_all add: upload_iteration_calls take_Suc_conv_app_nth)

text \<open>
  \<open>upload_ok\<close> says what it is meant to say: it holds at \<open>i\<close> exactly when the call of
  \<^verbatim>\<open>uploadToDrive\<close> in iteration \<open>i\<close> of the loop returns normally.
\<close>

lemma upload_ok_iff_returns:
  "upload_ok reply fs (disk s) i \<longleftrightarrow>
     (\<exists>d. fst (uploadToDrive (reply i) (fs ! i) folderId (loop_state reply k fs folderId s i)) = Inr d)"
  by (simp add: upload_ok_def uploadToDrive_returns loop_state_disk del: loop_state.simps)

lemma final_record:
  assumes "files req = Some fs" and "fs \<noteq> []"
    and "folder_reply ev = Inr d" and "permission_reply ev = Inr u"
  shows "uploadProgress (snd (upload_photos_handler ev req s)) =
           (uploadProgress s)(show_nat (now_upload ev) \<mapsto>
              (case last_success (upload_ok (file_reply ev) fs (disk s)) (length fs) of
                 None \<Rightarrow> (initial_progress (length fs))(''folderLink'' \<mapsto> JStr (data_webViewLink d))
               | Some j \<Rightarrow> (initial_progress (length fs))
                              (''folderLink'' \<mapsto> JStr (data_webViewLink d), ''completed'' \<mapsto> JNum (j + 1)))
              (''status'' \<mapsto> JStr ''completed''))"
proof -
  let ?k = "show_nat (now_upload ev)"
  let ?p3 = "(initial_progress (length fs))(''folderLink'' \<mapsto> JStr (data_webViewLink d))"
  let ?s3 = "loop_entry ev req (length fs) d s"
  let ?s4 = "loop_state (file_reply ev) ?k fs (data_id d) ?s3 (length fs)"
  have p3: "uploadProgress ?s3 ?k = Some ?p3" by simp
  have d3: "disk ?s3 = disk s" by simp
  show ?thesis
    unfolding handler_success [OF assms] snd_conv Let_def
    using loop_state_progress [OF p3, of "file_reply ev" fs "data_id d" "length fs"]
    unfolding d3
    by (cases "last_success (upload_ok (file_reply ev) fs (disk s)) (length fs)")
       (simp_all del: loop_state.simps)
qed

lemma show_nat_5: "show_nat 5 = ''5''"
  by (simp add: show_nat.simps digit_def)

lemma initial_progress_fields [simp]:
  "initial_progress n ''total'' = Some (JNum n)"
  "initial_progress n ''completed'' = Some (JNum 0)"
  "initial_progress n ''folderLink'' = Some JNull"
  "initial_progress n ''status'' = Some (JStr ''uploading'')"
  by (simp_all add: initial_progress_def)

lemma dom_initial_progress:
  "dom (initial_progress n) = {''total'', ''completed'', ''folderLink'', ''status''}"
  by (simp add: initial_progress_def insert_commute)

lemma dom_update_present: "p k = Some w \<Longrightarrow> dom (p(k \<mapsto> v)) = dom p"
  by auto

lemma handler_record_shape:
  assumes "files req = Some fs" and "fs \<noteq> []"
  shows "\<exists>p. uploadProgress (snd (upload_photos_handler ev req s)) (show_nat (now_upload ev)) = Some p \<and>
             dom p = {''total'', ''completed'', ''folderLink'', ''status''} \<and>
             p ''total'' = Some (JNum (length fs))"
proof (cases ev rule: provisioning_cases)
  case (fails e)
  have "uploadProgress (snd (upload_photos_handler ev req s)) (show_nat (now_upload ev)) =
          Some (initial_progress (length fs))"
    unfolding handler_failure [OF assms fails] by simp
  then show ?thesis
    using dom_initial_progress by simp
next
  case (ok d u)
  let ?p0 = "initial_progress (length fs)"
  let ?p3 = "?p0(''folderLink'' \<mapsto> JStr (data_webViewLink d))"
  have d3: "dom ?p3 = dom ?p0" by (rule dom_update_present) simp
  show ?thesis
  proof (cases "last_success (upload_ok (file_reply ev) fs (disk s)) (length fs)")
    case None
    let ?p5 = "?p3(''status'' \<mapsto> JStr ''completed'')"
    have d5: "dom ?p5 = dom ?p3"
      by (rule dom_update_present [of _ _ "JStr ''uploading''"]) simp
    have r: "uploadProgress (snd (upload_photos_handler ev req s)) (show_nat (now_upload ev)) = Some ?p5"
      unfolding final_record [OF assms ok] None by simp
    have t: "?p5 ''total'' = Some (JNum (length fs))" by simp
    from r t d5 d3 dom_initial_progress [of "length fs"] show ?thesis by metis
  next
    case (Some j)
    let ?p4 = "?p3(''completed'' \<mapsto> JNum (j + 1))"
    let ?p5 = "?p4(''status'' \<mapsto> JStr ''completed'')"
    have d4: "dom ?p4 = dom ?p3"
      by (rule dom_update_present [of _ _ "JNum 0"]) simp
    have d5: "dom ?p5 = dom ?p4"
      by (rule dom_update_present [of _ _ "JStr ''uploading''"]) simp
    have r: "uploadProgress (snd (upload_photos_handler ev req s)) (show_nat (now_upload ev)) = Some ?p5"
      unfolding final_record [OF assms ok] Some by simp
    have t: "?p5 ''total'' = Some (JNum (length fs))" by simp
    from r t d5 d4 d3 dom_initial_progress [of "length fs"] show ?thesis by metis
  qed
qed


























lemma multer_array_accepts:
  "n + length ps \<le> maxCount \<Longrightarrow> \<forall>p\<in>set ps. part_size p \<le> fileSize \<Longrightarrow>
   multer_array n ps = Inr (map stored ps)"
proof (induction ps arbitrary: n)
  case Nil
  then show ?case by simp
next
  case (Cons p ps)
  from Cons.prems have "multer_array (Suc n) ps = Inr (map stored ps)"
    by (intro Cons.IH) simp_all
  with Cons.prems show ?case by simp
qed

lemma route_accepts:
  assumes "length (photos rq) \<le> 10" and "\<forall>p\<in>set (photos rq). part_size p \<le> fileSize"
  shows "post_upload_photos on_error ev rq s =
           upload_photos_handler ev
             \<lparr>customerName = form_customerName rq, orderNumber = form_orderNumber rq,
              files = Some (map stored (photos rq))\<rparr>
             (s\<lparr>disk := disk s \<union> set (map path (map stored (photos rq)))\<rparr>)"
proof -
  have "multer_array 0 (photos rq) = Inr (map stored (photos rq))"
    using assms by (intro multer_array_accepts) (simp_all add: maxCount_def)
  then show ?thesis by (simp add: post_upload_photos_def)
qed

lemma last_success_top: "ok n \<Longrightarrow> last_success ok (Suc n) = Some n"
  by simp

lemma multer_array_rejects:
  "\<exists>p\<in>set ps. fileSize < part_size p \<Longrightarrow>
   multer_array n ps = Inl (MulterError ''LIMIT_FILE_SIZE'') \<or>
   multer_array n ps = Inl (MulterError ''LIMIT_UNEXPECTED_FILE'')"
proof (induction ps arbitrary: n)
  case Nil
  then show ?case by simp
next
  case (Cons p ps)
  show ?case
  proof (cases "maxCount \<le> n \<or> fileSize < part_size p")
    case True
    then show ?thesis by auto
  next
    case False
    with Cons.prems have "\<exists>p\<in>set ps. fileSize < part_size p" by auto
    from Cons.IH [OF this, of "Suc n"] False show ?thesis by auto
  qed
qed

section \<open>Properties\<close>

text \<open>
  C1. Two photos, the upload of the first rejected and the upload of the second accepted:
  the answer is the success response with the folder link, and the final record has
  completed 2, the number of photos, where one less was to be expected. The pass of the
  failed file writes nothing; the pass of the second file assigns \<open>i + 1 = 2\<close>.
\<close>

theorem one_failed_upload_is_counted_as_completed:
  "\<not> upload_ok (file_reply first_upload_fails) [photo_a, photo_b] (disk idle) 0 \<and>
   upload_ok (file_reply first_upload_fails) [photo_a, photo_b] (disk idle) 1 \<and>
   fst (upload_photos_handler first_upload_fails two_photos idle) =
     \<lparr>status_code = 200,
      body = Json [''success'' \<mapsto> JBool True, ''uploadId'' \<mapsto> JStr ''5'',
                   ''folderLink'' \<mapsto> JStr ''https://drive/F1'',
                   ''message'' \<mapsto> JStr ''Successfully uploaded 2 photos'']\<rparr> \<and>
   uploadProgress (snd (upload_photos_handler first_upload_fails two_photos idle)) ''5'' =
     Some [''total'' \<mapsto> JNum 2, ''completed'' \<mapsto> JNum 2,
           ''folderLink'' \<mapsto> JStr ''https://drive/F1'', ''status'' \<mapsto> JStr ''completed'']"
proof -
  have fs: "files two_photos = Some [photo_a, photo_b]" "[photo_a, photo_b] \<noteq> []"
    by (simp_all add: two_photos_def)
  have ok: "folder_reply first_upload_fails = Inr drive_ok" "permission_reply first_upload_fails = Inr ()"
    by (simp_all add: first_upload_fails_def)
  have k: "show_nat (now_upload first_upload_fails) = ''5''"
    by (simp add: first_upload_fails_def show_nat_5)
  have u0: "\<not> upload_ok (file_reply first_upload_fails) [photo_a, photo_b] (disk idle) 0"
    by (simp add: upload_ok_def upload_succeeds_def first_upload_fails_def)
  have u1: "upload_ok (file_reply first_upload_fails) [photo_a, photo_b] (disk idle) 1"
    by (simp add: upload_ok_def upload_succeeds_def first_upload_fails_def idle_def photo_a_def photo_b_def)
  have L: "last_success (upload_ok (file_reply first_upload_fails) [photo_a, photo_b] (disk idle))
             (length [photo_a, photo_b]) = Some 1"
    using u1 by (simp add: numeral_2_eq_2)
  have r: "fst (upload_photos_handler first_upload_fails two_photos idle) =
     \<lparr>status_code = 200,
      body = Json [''success'' \<mapsto> JBool True, ''uploadId'' \<mapsto> JStr ''5'',
                   ''folderLink'' \<mapsto> JStr ''https://drive/F1'',
                   ''message'' \<mapsto> JStr ''Successfully uploaded 2 photos'']\<rparr>"
    unfolding handler_success [OF fs ok] fst_conv k
    by (simp add: success_response_def drive_ok_def show_nat.simps digit_def)
  have p: "uploadProgress (snd (upload_photos_handler first_upload_fails two_photos idle)) ''5'' =
     Some [''total'' \<mapsto> JNum 2, ''completed'' \<mapsto> JNum 2,
           ''folderLink'' \<mapsto> JStr ''https://drive/F1'', ''status'' \<mapsto> JStr ''completed'']"
    unfolding final_record [OF fs ok] L k
    by (simp add: initial_progress_def drive_ok_def idle_def fun_upd_twist numeral_2_eq_2)
  show ?thesis by (intro conjI u0 u1 r p)
qed

text \<open>
  C2. When a photo of the request is longer than the 10 MiB limit, the multer stage ends the
  request with its error (the size error, or the count error when ten photos came before):
  the route handler does not run, so no remote call is issued and no progress record is
  created. The error goes to the framework's error handling, as \<^verbatim>\<open>server.js\<close> has none of
  its own; with Express's default handler the answer is status 500 with an HTML body.
\<close>

theorem oversized_file_stops_at_multer:
  assumes "\<exists>p\<in>set (photos rq). fileSize < part_size p"
  shows "(post_upload_photos on_error ev rq s = (on_error (MulterError ''LIMIT_FILE_SIZE''), s) \<or>
          post_upload_photos on_error ev rq s = (on_error (MulterError ''LIMIT_UNEXPECTED_FILE''), s)) \<and>
         calls (snd (post_upload_photos on_error ev rq s)) = calls s \<and>
         uploadProgress (snd (post_upload_photos on_error ev rq s)) = uploadProgress s \<and>
         status_code (fst (post_upload_photos express_default_error ev rq s)) = 500 \<and>
         (\<exists>page. body (fst (post_upload_photos express_default_error ev rq s)) = Html page)"
proof -
  from multer_array_rejects [OF assms, of 0]
  show ?thesis
  proof
    assume "multer_array 0 (photos rq) = Inl (MulterError ''LIMIT_FILE_SIZE'')"
    then show ?thesis by (simp add: post_upload_photos_def express_default_error_def)
  next
    assume "multer_array 0 (photos rq) = Inl (MulterError ''LIMIT_UNEXPECTED_FILE'')"
    then show ?thesis by (simp add: post_upload_photos_def express_default_error_def)
  qed
qed

theorem oversized_file_stops_at_multer_witness:
  "(\<exists>p\<in>set (photos oversized). fileSize < part_size p) \<and>
   post_upload_photos express_default_error all_uploads_succeed oversized idle =
     (express_default_error (MulterError ''LIMIT_FILE_SIZE''), idle) \<and>
   calls (snd (post_upload_photos express_default_error all_uploads_succeed oversized idle)) = calls idle \<and>
   status_code (fst (post_upload_photos express_default_error all_uploads_succeed oversized idle)) = 500"
proof -
  have h: "\<exists>p\<in>set (photos oversized). fileSize < part_size p"
    by (simp add: oversized_def big_part_def fileSize_def)
  note t = oversized_file_stops_at_multer [OF h, of express_default_error all_uploads_succeed idle]
  have r: "post_upload_photos express_default_error all_uploads_succeed oversized idle =
     (express_default_error (MulterError ''LIMIT_FILE_SIZE''), idle)"
    by (simp add: post_upload_photos_def oversized_def part_a_def big_part_def fileSize_def maxCount_def)
  show ?thesis
    by (intro conjI h r t [THEN conjunct2, THEN conjunct1]
          t [THEN conjunct2, THEN conjunct2, THEN conjunct2, THEN conjunct1])
qed

text \<open>
  The answer to an oversized photo is therefore not a 4xx status with a JSON body.
\<close>

theorem oversized_file_is_not_a_client_error_counterexample:
  "(\<exists>p\<in>set (photos oversized). fileSize < part_size p) \<and>
   \<not> (400 \<le> status_code (fst (post_upload_photos express_default_error all_uploads_succeed oversized idle)) \<and>
      status_code (fst (post_upload_photos express_default_error all_uploads_succeed oversized idle)) < 500 \<and>
      (\<exists>obj. body (fst (post_upload_photos express_default_error all_uploads_succeed oversized idle)) = Json obj))"
  by (simp add: post_upload_photos_def oversized_def part_a_def big_part_def fileSize_def maxCount_def
        express_default_error_def)




text \<open>
  C4. For a batch of N photos with 1 \<le> N \<le> 10, each within the size limit, the record
  stored under the request's identifier has total N. When moreover the folder step succeeds
  and every per-file upload succeeds, polling the identifier afterwards answers 200 with a
  record whose total is N, whose completed is N and whose status is completed.
\<close>

theorem valid_batch_total_and_completion:
  assumes "1 \<le> length (photos rq)" and "length (photos rq) \<le> 10"
    and "\<forall>p\<in>set (photos rq). part_size p \<le> fileSize"
  shows "(\<exists>p. uploadProgress (snd (post_upload_photos on_error ev rq s)) (show_nat (now_upload ev)) = Some p \<and>
              p ''total'' = Some (JNum (length (photos rq)))) \<and>
         (\<forall>d u. folder_reply ev = Inr d \<and> permission_reply ev = Inr u \<and>
                 (\<forall>i<length (photos rq).
                     upload_ok (file_reply ev) (map stored (photos rq))
                       (disk s \<union> set (map path (map stored (photos rq)))) i) \<longrightarrow>
            (\<exists>p. upload_progress_handler (show_nat (now_upload ev)) (snd (post_upload_photos on_error ev rq s)) =
                    (\<lparr>status_code = 200, body = Json p\<rparr>, snd (post_upload_photos on_error ev rq s)) \<and>
                  p ''total'' = Some (JNum (length (photos rq))) \<and>
                  p ''completed'' = Some (JNum (length (photos rq))) \<and>
                  p ''status'' = Some (JStr ''completed'')))"
proof -
  let ?fs = "map stored (photos rq)"
  let ?req = "\<lparr>customerName = form_customerName rq, orderNumber = form_orderNumber rq, files = Some ?fs\<rparr>"
  let ?s0 = "s\<lparr>disk := disk s \<union> set (map path ?fs)\<rparr>"
  let ?k = "show_nat (now_upload ev)"
  let ?s' = "snd (post_upload_photos on_error ev rq s)"
  have route: "post_upload_photos on_error ev rq s = upload_photos_handler ev ?req ?s0"
    using assms(2,3) by (rule route_accepts)
  have fs: "files ?req = Some ?fs" by simp
  have ne: "?fs \<noteq> []" using assms(1) by auto
  have len: "length ?fs = length (photos rq)" by simp
  have total: "\<exists>p. uploadProgress ?s' ?k = Some p \<and> p ''total'' = Some (JNum (length (photos rq)))"
    using handler_record_shape [OF fs ne, of ev ?s0] unfolding route len by (elim exE conjE) (intro exI conjI)
  have fin: "\<exists>p. upload_progress_handler ?k ?s' = (\<lparr>status_code = 200, body = Json p\<rparr>, ?s') \<and>
                  p ''total'' = Some (JNum (length (photos rq))) \<and>
                  p ''completed'' = Some (JNum (length (photos rq))) \<and>
                  p ''status'' = Some (JStr ''completed'')"
    if ok: "folder_reply ev = Inr d" "permission_reply ev = Inr u"
      and all: "\<forall>i<length (photos rq). upload_ok (file_reply ev) ?fs (disk s \<union> set (map path ?fs)) i"
    for d u
  proof -
    obtain n where n: "length (photos rq) = Suc n" using assms(1) by (cases "length (photos rq)") auto
    have d0: "disk ?s0 = disk s \<union> set (map path ?fs)" by simp
    from all n have "upload_ok (file_reply ev) ?fs (disk ?s0) n" unfolding d0 by simp
    then have L: "last_success (upload_ok (file_reply ev) ?fs (disk ?s0)) (length ?fs) = Some n"
      unfolding len n by (rule last_success_top)
    let ?p = "((initial_progress (length ?fs))
                (''folderLink'' \<mapsto> JStr (data_webViewLink d), ''completed'' \<mapsto> JNum (n + 1)))
                (''status'' \<mapsto> JStr ''completed'')"
    have rec: "uploadProgress ?s' ?k = Some ?p"
      unfolding route final_record [OF fs ne ok] L by simp
    then have get: "upload_progress_handler ?k ?s' = (\<lparr>status_code = 200, body = Json ?p\<rparr>, ?s')"
      by (simp add: upload_progress_handler_def)
    have t: "?p ''total'' = Some (JNum (length (photos rq)))" by simp
    have c: "?p ''completed'' = Some (JNum (length (photos rq)))" by (simp add: n)
    have st: "?p ''status'' = Some (JStr ''completed'')" by simp
    show ?thesis by (rule exI [of _ ?p]) (intro conjI get t c st)
  qed
  show ?thesis
  proof (intro conjI allI impI)
    show "\<exists>p. uploadProgress ?s' ?k = Some p \<and> p ''total'' = Some (JNum (length (photos rq)))"
      by (rule total)
  next
    fix d u
    assume a: "folder_reply ev = Inr d \<and> permission_reply ev = Inr u \<and>
       (\<forall>i<length (photos rq). upload_ok (file_reply ev) ?fs (disk s \<union> set (map path ?fs)) i)"
    show "\<exists>p. upload_progress_handler ?k ?s' = (\<lparr>status_code = 200, body = Json p\<rparr>, ?s') \<and>
                  p ''total'' = Some (JNum (length (photos rq))) \<and>
                  p ''completed'' = Some (JNum (length (photos rq))) \<and>
                  p ''status'' = Some (JStr ''completed'')"
      using a [THEN conjunct1] a [THEN conjunct2, THEN conjunct1] a [THEN conjunct2, THEN conjunct2]
      by (rule fin)
  qed
qed

theorem valid_batch_total_and_completion_witness:
  "1 \<le> length (photos two_parts) \<and> length (photos two_parts) \<le> 10 \<and>
   list_all (\<lambda>p. part_size p \<le> fileSize) (photos two_parts) \<and>
   folder_reply all_uploads_succeed = Inr drive_ok \<and> permission_reply all_uploads_succeed = Inr () \<and>
   list_all
     (upload_ok (file_reply all_uploads_succeed) (map stored (photos two_parts))
        (disk idle \<union> set (map path (map stored (photos two_parts)))))
     [0..<length (photos two_parts)] \<and>
   (\<exists>p. upload_progress_handler ''5''
           (snd (post_upload_photos express_default_error all_uploads_succeed two_parts idle)) =
          (\<lparr>status_code = 200, body = Json p\<rparr>,
           snd (post_upload_photos express_default_error all_uploads_succeed two_parts idle)) \<and>
        p ''total'' = Some (JNum 2) \<and> p ''completed'' = Some (JNum 2) \<and>
        p ''status'' = Some (JStr ''completed''))"
proof -
  have h1: "1 \<le> length (photos two_parts)" by (simp add: two_parts_def)
  have h2: "length (photos two_parts) \<le> 10" by (simp add: two_parts_def)
  have g3: "list_all (\<lambda>p. part_size p \<le> fileSize) (photos two_parts)"
    by (simp add: two_parts_def part_a_def part_b_def fileSize_def)
  then have h3: "\<forall>p\<in>set (photos two_parts). part_size p \<le> fileSize"
    by (simp add: list_all_iff)
  have h4: "folder_reply all_uploads_succeed = Inr drive_ok" by (simp add: all_uploads_succeed_def)
  have h5: "permission_reply all_uploads_succeed = Inr ()" by (simp add: all_uploads_succeed_def)
  have h6: "\<forall>i<length (photos two_parts).
       upload_ok (file_reply all_uploads_succeed) (map stored (photos two_parts))
         (disk idle \<union> set (map path (map stored (photos two_parts)))) i"
    by (simp add: two_parts_def part_a_def part_b_def all_uploads_succeed_def idle_def stored_def
          storage_filename_def show_nat.simps digit_def upload_ok_def upload_succeeds_def
          numeral_2_eq_2 less_Suc_eq)
  then have g6: "list_all
     (upload_ok (file_reply all_uploads_succeed) (map stored (photos two_parts))
        (disk idle \<union> set (map path (map stored (photos two_parts)))))
     [0..<length (photos two_parts)]"
    by (simp add: list_all_iff)
  have k: "show_nat (now_upload all_uploads_succeed) = ''5''"
    by (simp add: all_uploads_succeed_def show_nat_5)
  have len: "length (photos two_parts) = 2" by (simp add: two_parts_def)
  note t = valid_batch_total_and_completion [OF h1 h2 h3, of express_default_error all_uploads_succeed idle]
  note c = t [THEN conjunct2, THEN spec, THEN spec, THEN mp, OF conjI [OF h4 conjI [OF h5 h6]], unfolded k len]
  show ?thesis
    by (intro conjI h1 h2 g3 h4 h5 g6 c)
qed

text \<open>
  C5. When the folder step fails (the folder creation is rejected, or the permission
  grant is), the endpoint answers 500 with an error and its details, the only remote calls
  are those of the folder step, so no file upload is attempted and no temporary file is
  consumed, and the only write to the progress map is the initial record, whose status is
  uploading: the record stays in that state.
\<close>

theorem provisioning_failure_aborts:
  assumes "files req = Some fs" and "fs \<noteq> []" and "provisioning_fails ev e"
  shows "fst (upload_photos_handler ev req s) =
           \<lparr>status_code = 500,
            body = Json [''error'' \<mapsto> JStr ''Upload failed'', ''details'' \<mapsto> JStr (message e)]\<rparr> \<and>
         calls (snd (upload_photos_handler ev req s)) = calls s @ provisioning_calls ev req \<and>
         \<not> list_ex is_file_upload (provisioning_calls ev req) \<and>
         disk (snd (upload_photos_handler ev req s)) = disk s \<and>
         uploadProgress (snd (upload_photos_handler ev req s)) =
           (uploadProgress s)(show_nat (now_upload ev) \<mapsto> initial_progress (length fs)) \<and>
         trail (snd (upload_photos_handler ev req s)) =
           trail s @ [(uploadProgress s)(show_nat (now_upload ev) \<mapsto> initial_progress (length fs))] \<and>
         initial_progress (length fs) ''status'' = Some (JStr ''uploading'')"
  unfolding handler_failure [OF assms]
  by (simp add: failure_response_def provisioning_calls_def is_file_upload_def initial_progress_def
        split: sum.splits)

theorem provisioning_failure_aborts_witness:
  "files two_photos = Some [photo_a, photo_b] \<and> [photo_a, photo_b] \<noteq> [] \<and>
   provisioning_fails folder_step_fails (DriveError ''insufficient permissions'') \<and>
   status_code (fst (upload_photos_handler folder_step_fails two_photos idle)) = 500 \<and>
   calls (snd (upload_photos_handler folder_step_fails two_photos idle)) =
     [FilesCreateFolder ''Ann-ORDER-7-6'' ''application/vnd.google-apps.folder'',
      PermissionsCreate ''F1'' ''reader'' ''anyone''] \<and>
   (\<exists>p. uploadProgress (snd (upload_photos_handler folder_step_fails two_photos idle)) ''5'' = Some p \<and>
        p ''status'' = Some (JStr ''uploading''))"
  using provisioning_failure_aborts [of two_photos "[photo_a, photo_b]" folder_step_fails
          "DriveError ''insufficient permissions''" idle]
  by (simp add: two_photos_def folder_step_fails_def idle_def provisioning_fails_def
        provisioning_calls_def folderName_def drive_ok_def show_nat.simps digit_def initial_progress_def)

text \<open>
  C6. A request without files (\<^verbatim>\<open>req.files\<close> missing or empty) is answered 400 with a JSON
  error body and leaves the state as it was, so no progress record is created; the same
  holds at the route when the multipart body has no file part.
\<close>

theorem empty_batch_is_rejected:
  "(files req = None \<or> files req = Some [] \<longrightarrow>
      upload_photos_handler ev req s =
        (\<lparr>status_code = 400, body = Json [''error'' \<mapsto> JStr ''No files uploaded'']\<rparr>, s)) \<and>
   (photos rq = [] \<longrightarrow>
      post_upload_photos on_error ev rq s =
        (\<lparr>status_code = 400, body = Json [''error'' \<mapsto> JStr ''No files uploaded'']\<rparr>, s))"
  by (auto simp: upload_photos_handler_def post_upload_photos_def no_files_response_def)

theorem empty_batch_is_rejected_witness:
  "files \<lparr>customerName = None, orderNumber = None, files = None\<rparr> = None \<and>
   upload_photos_handler first_upload_fails \<lparr>customerName = None, orderNumber = None, files = None\<rparr> idle =
     (\<lparr>status_code = 400, body = Json [''error'' \<mapsto> JStr ''No files uploaded'']\<rparr>, idle) \<and>
   photos no_parts = [] \<and>
   status_code (fst (post_upload_photos express_default_error first_upload_fails no_parts idle)) = 400 \<and>
   uploadProgress (snd (post_upload_photos express_default_error first_upload_fails no_parts idle)) = Map.empty"
  using empty_batch_is_rejected [of "\<lparr>customerName = None, orderNumber = None, files = None\<rparr>"
          first_upload_fails idle no_parts express_default_error]
  by (simp add: no_parts_def idle_def)

text \<open>
  C7. The progress endpoint answers 404 with the body \<^verbatim>\<open>{ error: "Upload not found" }\<close> for
  an identifier that is not in the map and 200 with the stored record for one that is; it
  never changes the state. The record the upload handler has stored for its request has
  exactly the fields total, completed, folderLink and status.
\<close>

theorem progress_lookup:
  "(uploadProgress s uploadId = None \<longrightarrow>
      upload_progress_handler uploadId s =
        (\<lparr>status_code = 404, body = Json [''error'' \<mapsto> JStr ''Upload not found'']\<rparr>, s)) \<and>
   (\<forall>p. uploadProgress s uploadId = Some p \<longrightarrow>
      upload_progress_handler uploadId s = (\<lparr>status_code = 200, body = Json p\<rparr>, s)) \<and>
   snd (upload_progress_handler uploadId s) = s \<and>
   (files req = Some fs \<and> fs \<noteq> [] \<longrightarrow>
      (\<exists>p. fst (upload_progress_handler (show_nat (now_upload ev)) (snd (upload_photos_handler ev req s))) =
              \<lparr>status_code = 200, body = Json p\<rparr> \<and>
            dom p = {''total'', ''completed'', ''folderLink'', ''status''}))"
proof -
  have known: "files req = Some fs \<and> fs \<noteq> [] \<longrightarrow>
      (\<exists>p. fst (upload_progress_handler (show_nat (now_upload ev)) (snd (upload_photos_handler ev req s))) =
              \<lparr>status_code = 200, body = Json p\<rparr> \<and>
            dom p = {''total'', ''completed'', ''folderLink'', ''status''})"
  proof
    assume a: "files req = Some fs \<and> fs \<noteq> []"
    then obtain p where
      "uploadProgress (snd (upload_photos_handler ev req s)) (show_nat (now_upload ev)) = Some p"
      and "dom p = {''total'', ''completed'', ''folderLink'', ''status''}"
      using handler_record_shape [of req fs ev s] by blast
    then show "\<exists>p. fst (upload_progress_handler (show_nat (now_upload ev)) (snd (upload_photos_handler ev req s))) =
              \<lparr>status_code = 200, body = Json p\<rparr> \<and>
            dom p = {''total'', ''completed'', ''folderLink'', ''status''}"
      by (simp add: upload_progress_handler_def)
  qed
  have rest: "(uploadProgress s uploadId = None \<longrightarrow>
      upload_progress_handler uploadId s =
        (\<lparr>status_code = 404, body = Json [''error'' \<mapsto> JStr ''Upload not found'']\<rparr>, s)) \<and>
   (\<forall>p. uploadProgress s uploadId = Some p \<longrightarrow>
      upload_progress_handler uploadId s = (\<lparr>status_code = 200, body = Json p\<rparr>, s)) \<and>
   snd (upload_progress_handler uploadId s) = s"
    by (simp add: upload_progress_handler_def split: option.splits)
  from rest known show ?thesis by blast
qed



theorem progress_lookup_witness:
  "uploadProgress idle ''5'' = None \<and>
   upload_progress_handler ''5'' idle =
     (\<lparr>status_code = 404, body = Json [''error'' \<mapsto> JStr ''Upload not found'']\<rparr>, idle) \<and>
   files two_photos = Some [photo_a, photo_b] \<and> [photo_a, photo_b] \<noteq> [] \<and>
   status_code (fst (upload_progress_handler ''5'' (snd (upload_photos_handler first_upload_fails two_photos idle)))) = 200"
proof -
  have h1: "uploadProgress idle ''5'' = None" by (simp add: idle_def)
  have h2: "files two_photos = Some [photo_a, photo_b] \<and> [photo_a, photo_b] \<noteq> []"
    by (simp add: two_photos_def)
  have k: "show_nat (now_upload first_upload_fails) = ''5''"
    by (simp add: first_upload_fails_def show_nat_5)
  note t = progress_lookup [of idle "''5''" two_photos "[photo_a, photo_b]" first_upload_fails]
  note a = t [THEN conjunct1, THEN mp, OF h1]
  note b = t [THEN conjunct2, THEN conjunct2, THEN conjunct2, THEN mp, OF h2]
  from b have c: "status_code (fst (upload_progress_handler ''5''
      (snd (upload_photos_handler first_upload_fails two_photos idle)))) = 200"
    unfolding k by (elim exE conjE) simp
  show ?thesis
    by (intro conjI h1 a c h2 [THEN conjunct1] h2 [THEN conjunct2])
qed

text \<open>
  C8. \<^verbatim>\<open>uploadToDrive\<close> removes the temporary file when the remote upload is accepted and
  leaves the disk as it is when the remote upload is rejected. In the caller a rejected
  upload adds one line to the error log and nothing else, and the loop goes on to the next
  index: a remote upload is issued for every file of the batch, in order.
\<close>

theorem uploadToDrive_unlinks_on_success_only:
  "(\<forall>d. reply = Inr d \<and> path f \<in> disk s \<longrightarrow>
      fst (uploadToDrive reply f folderId s) = Inr d \<and>
      disk (snd (uploadToDrive reply f folderId s)) = disk s - {path f}) \<and>
   (\<forall>e. reply = Inl e \<longrightarrow>
      fst (uploadToDrive reply f folderId s) = Inl e \<and>
      disk (snd (uploadToDrive reply f folderId s)) = disk s) \<and>
   (\<forall>e. replies i = Inl e \<longrightarrow>
      upload_iteration replies uploadId fs folderId i s =
        console_error ''Error uploading file:'' e
          (remote_call (FilesCreateMedia (originalname (fs ! i)) [folderId] (mimetype (fs ! i)) (path (fs ! i))) s)) \<and>
   (i < length fs \<longrightarrow>
      upload_loop replies uploadId fs folderId i s =
        upload_loop replies uploadId fs folderId (Suc i) (upload_iteration replies uploadId fs folderId i s)) \<and>
   calls (upload_loop replies uploadId fs folderId 0 s) =
     calls s @ map (\<lambda>f. FilesCreateMedia (originalname f) [folderId] (mimetype f) (path f)) fs"
proof -
  have a: "\<forall>d. reply = Inr d \<and> path f \<in> disk s \<longrightarrow>
      fst (uploadToDrive reply f folderId s) = Inr d \<and>
      disk (snd (uploadToDrive reply f folderId s)) = disk s - {path f}"
    by (simp add: uploadToDrive_def Let_def)
  have b: "\<forall>e. reply = Inl e \<longrightarrow>
      fst (uploadToDrive reply f folderId s) = Inl e \<and>
      disk (snd (uploadToDrive reply f folderId s)) = disk s"
    by (simp add: uploadToDrive_def Let_def)
  have c: "\<forall>e. replies i = Inl e \<longrightarrow>
      upload_iteration replies uploadId fs folderId i s =
        console_error ''Error uploading file:'' e
          (remote_call (FilesCreateMedia (originalname (fs ! i)) [folderId] (mimetype (fs ! i)) (path (fs ! i))) s)"
    by (simp add: upload_iteration_def uploadToDrive_def Let_def)
  have d: "i < length fs \<longrightarrow>
      upload_loop replies uploadId fs folderId i s =
        upload_loop replies uploadId fs folderId (Suc i) (upload_iteration replies uploadId fs folderId i s)"
    by (subst upload_loop.simps) simp
  have e: "calls (upload_loop replies uploadId fs folderId 0 s) =
     calls s @ map (\<lambda>f. FilesCreateMedia (originalname f) [folderId] (mimetype f) (path f)) fs"
    by (simp add: upload_loop_eq_loop_state loop_state_calls del: loop_state.simps)
  from a b c d e show ?thesis by blast
qed

theorem uploadToDrive_unlinks_on_success_only_witness:
  "path photo_b \<in> disk idle \<and>
   disk (snd (uploadToDrive (Inr \<lparr>file_id = ''x'', file_name = ''b.jpg''\<rparr>) photo_b ''F1'' idle)) =
     {''uploads/1-a.jpg''} \<and>
   disk (snd (uploadToDrive (Inl (DriveError ''socket hang up'')) photo_a ''F1'' idle)) =
     {''uploads/1-a.jpg'', ''uploads/2-b.jpg''} \<and>
   console (upload_iteration (file_reply first_upload_fails) ''5'' [photo_a, photo_b] ''F1'' 0 idle) =
     [(''Error uploading file:'', DriveError ''socket hang up'')] \<and>
   (0::nat) < length [photo_a, photo_b] \<and>
   calls (upload_loop (file_reply first_upload_fails) ''5'' [photo_a, photo_b] ''F1'' 0 idle) =
     [FilesCreateMedia ''a.jpg'' [''F1''] ''image/jpeg'' ''uploads/1-a.jpg'',
      FilesCreateMedia ''b.jpg'' [''F1''] ''image/jpeg'' ''uploads/2-b.jpg'']"
  using uploadToDrive_unlinks_on_success_only
          [of "Inr \<lparr>file_id = ''x'', file_name = ''b.jpg''\<rparr>" photo_b idle "''F1''"
              "file_reply first_upload_fails" 0 "''5''" "[photo_a, photo_b]"]
        uploadToDrive_unlinks_on_success_only
          [of "Inl (DriveError ''socket hang up'')" photo_a idle "''F1''"
              "file_reply first_upload_fails" 0 "''5''" "[photo_a, photo_b]"]
  by (auto simp: idle_def photo_a_def photo_b_def first_upload_fails_def)

text \<open>
  C9. \<^verbatim>\<open>createCustomerFolder\<close> names the folder customerName-ORDER-orderNumber-timestamp,
  issues the folder creation and then the permission grant of role reader to type anyone on
  the created folder, and returns the folder's id, name and link. A rejected creation
  propagates after that one call, a rejected grant after the two calls; nothing is retried.
\<close>

theorem createCustomerFolder_calls_and_result:
  "(\<forall>d u. freply = Inr d \<and> preply = Inr u \<longrightarrow>
      createCustomerFolder now freply preply (Some cn) (Some ordn) s =
        (Inr \<lparr>fid = data_id d, fname = data_name d, link = data_webViewLink d\<rparr>,
         s\<lparr>calls := calls s @
              [FilesCreateFolder (cn @ ''-ORDER-'' @ ordn @ ''-'' @ show_nat now) ''application/vnd.google-apps.folder'',
               PermissionsCreate (data_id d) ''reader'' ''anyone'']\<rparr>)) \<and>
   (\<forall>e. freply = Inl e \<longrightarrow>
      createCustomerFolder now freply preply (Some cn) (Some ordn) s =
        (Inl e,
         s\<lparr>calls := calls s @
              [FilesCreateFolder (cn @ ''-ORDER-'' @ ordn @ ''-'' @ show_nat now) ''application/vnd.google-apps.folder'']\<rparr>)) \<and>
   (\<forall>d e. freply = Inr d \<and> preply = Inl e \<longrightarrow>
      createCustomerFolder now freply preply (Some cn) (Some ordn) s =
        (Inl e,
         s\<lparr>calls := calls s @
              [FilesCreateFolder (cn @ ''-ORDER-'' @ ordn @ ''-'' @ show_nat now) ''application/vnd.google-apps.folder'',
               PermissionsCreate (data_id d) ''reader'' ''anyone'']\<rparr>))"
  by (simp add: createCustomerFolder_def folderName_def remote_call_def Let_def)

theorem createCustomerFolder_calls_and_result_witness:
  "Inr drive_ok = (Inr drive_ok :: error + drive_folder) \<and>
   fst (createCustomerFolder 6 (Inr drive_ok) (Inr ()) (Some ''Ann'') (Some ''7'') idle) =
     Inr \<lparr>fid = ''F1'', fname = ''Ann-ORDER-7-6'', link = ''https://drive/F1''\<rparr> \<and>
   calls (snd (createCustomerFolder 6 (Inr drive_ok) (Inr ()) (Some ''Ann'') (Some ''7'') idle)) =
     [FilesCreateFolder ''Ann-ORDER-7-6'' ''application/vnd.google-apps.folder'',
      PermissionsCreate ''F1'' ''reader'' ''anyone''] \<and>
   createCustomerFolder 6 (Inl (DriveError ''quota'')) (Inr ()) (Some ''Ann'') (Some ''7'') idle =
     (Inl (DriveError ''quota''),
      idle\<lparr>calls := [FilesCreateFolder ''Ann-ORDER-7-6'' ''application/vnd.google-apps.folder'']\<rparr>) \<and>
   fst (createCustomerFolder 6 (Inr drive_ok) (Inl (DriveError ''denied'')) (Some ''Ann'') (Some ''7'') idle) =
     Inl (DriveError ''denied'')"
  using createCustomerFolder_calls_and_result [of "Inr drive_ok" "Inr ()" 6 "''Ann''" "''7''" idle]
        createCustomerFolder_calls_and_result [of "Inl (DriveError ''quota'')" "Inr ()" 6 "''Ann''" "''7''" idle]
        createCustomerFolder_calls_and_result [of "Inr drive_ok" "Inl (DriveError ''denied'')" 6 "''Ann''" "''7''" idle]
  by (simp add: drive_ok_def idle_def show_nat.simps digit_def)

text \<open>
  C10. After the loop the record's \<open>completed\<close> field is one more than the index of the
  last file whose upload succeeded, and 0 when none did: a successful pass assigns
  \<open>i + 1\<close> (line 146), it does not count successes. So when the last file succeeds the
  field equals the number of files, whatever happened to the files before it.
\<close>

theorem completed_is_one_past_last_success:
  assumes "files req = Some fs" and "fs \<noteq> []"
    and "folder_reply ev = Inr d" and "permission_reply ev = Inr u"
  shows "\<exists>p. uploadProgress (snd (upload_photos_handler ev req s)) (show_nat (now_upload ev)) = Some p \<and>
             p ''completed'' =
               Some (JNum (case last_success (upload_ok (file_reply ev) fs (disk s)) (length fs) of
                             None \<Rightarrow> 0 | Some j \<Rightarrow> j + 1)) \<and>
             (upload_ok (file_reply ev) fs (disk s) (length fs - 1) \<longrightarrow>
                p ''completed'' = Some (JNum (length fs)))"
proof -
  define L where "L = last_success (upload_ok (file_reply ev) fs (disk s)) (length fs)"
  obtain n where n: "length fs = Suc n" using assms(2) by (cases fs) auto
  have last: "upload_ok (file_reply ev) fs (disk s) (length fs - 1) \<Longrightarrow> L = Some (length fs - 1)"
    unfolding L_def n by simp
  show ?thesis
    unfolding final_record [OF assms] L_def [symmetric]
    using last n by (cases L) (auto simp: initial_progress_def)
qed


theorem completed_is_one_past_last_success_witness:
  "files two_photos = Some [photo_a, photo_b] \<and> [photo_a, photo_b] \<noteq> [] \<and>
   folder_reply first_upload_fails = Inr drive_ok \<and> permission_reply first_upload_fails = Inr () \<and>
   (\<exists>p. uploadProgress (snd (upload_photos_handler first_upload_fails two_photos idle)) ''5'' = Some p \<and>
        p ''completed'' = Some (JNum 2))"
  using completed_is_one_past_last_success [of two_photos "[photo_a, photo_b]" first_upload_fails drive_ok "()" idle]
  by (simp add: two_photos_def first_upload_fails_def idle_def photo_a_def photo_b_def show_nat_5
        upload_ok_def upload_succeeds_def numeral_2_eq_2)

end
